theory Spec2Isabelle
  imports Main "HOL-Library.Sublist"
begin

text \<open>
  A model of \<open>db_utils.py\<close>: the loader of the JSON configuration, the two factories
  \<open>get_connection\<close> and \<open>get_engine\<close>, and \<open>save_dataframe\<close>, \<open>get_dataframe\<close>,
  \<open>get_tables\<close> and \<open>preview\<close> on top of them. A function of the module becomes a
  function of the environment and its arguments that returns the result, an error or a
  value, together with the trace of what the call did to the outside.
\<close>

section \<open>Strings\<close>

text \<open>
  A Python \<open>str\<close> is modelled as its UTF-8 encoding, a \<open>string\<close> (list of bytes).
  Concatenation, \<open>join\<close> and substring tests agree with Python on that encoding.
  \<open>lower\<close> maps the ASCII capitals only; Python's \<open>str.lower\<close> also maps capitals
  outside ASCII, none of which lowers to a letter of \<open>postgresql\<close> or \<open>mariadb\<close>,
  so the comparisons of the lowered type with these two words agree.
\<close>

definition digit_char :: "nat \<Rightarrow> char" where
  "digit_char d = ''0123456789'' ! d"

text \<open>\<open>str(n)\<close> for a non-negative integer: its decimal digits.\<close>

fun show_nat :: "nat \<Rightarrow> string" where
  "show_nat n =
     (if n < 10 then [digit_char n] else show_nat (n div 10) @ [digit_char (n mod 10)])"

declare show_nat.simps [simp del]

text \<open>\<open>str(i)\<close> for an integer, as an f-string prints it.\<close>

definition show_int :: "int \<Rightarrow> string" where
  "show_int i = (if i < 0 then ''-'' @ show_nat (nat (- i)) else show_nat (nat i))"

text \<open>The format specification \<open>{n:,}\<close>: decimal digits in groups of three.\<close>

definition pad3 :: "nat \<Rightarrow> string" where
  "pad3 n = [digit_char (n div 100), digit_char (n div 10 mod 10), digit_char (n mod 10)]"

fun group_thousands :: "nat \<Rightarrow> string" where
  "group_thousands n =
     (if n < 1000 then show_nat n
      else group_thousands (n div 1000) @ '','' @ pad3 (n mod 1000))"

declare group_thousands.simps [simp del]

definition lower_char :: "char \<Rightarrow> char" where
  "lower_char c =
     (case map_of (zip ''ABCDEFGHIJKLMNOPQRSTUVWXYZ'' ''abcdefghijklmnopqrstuvwxyz'') c of
        Some d \<Rightarrow> d
      | None \<Rightarrow> c)"

definition lower :: "string \<Rightarrow> string" where
  "lower s = map lower_char s"

text \<open>\<open>sep.join(xs)\<close>.\<close>

fun join :: "string \<Rightarrow> string list \<Rightarrow> string" where
  "join sep [] = []"
| "join sep [x] = x"
| "join sep (x # y # ys) = x @ sep @ join sep (y # ys)"

text \<open>A value between single quotes, as in \<open>f"'{db_name}'"\<close>.\<close>

definition quoted :: "string \<Rightarrow> string" where
  "quoted s = [CHR 0x27] @ s @ [CHR 0x27]"

subsection \<open>The fixed texts of the messages\<close>

text \<open>
  The literal parts of the module's messages are Korean; each is given by its UTF-8
  bytes, with an English gloss.
\<close>

definition ko_config_not_found :: string where
  \<comment> \<open>The configuration file could not be found: \<close>
  "ko_config_not_found =
     [CHR 0xEC, CHR 0x84, CHR 0xA4, CHR 0xEC, CHR 0xA0, CHR 0x95] @
     '' '' @
     [CHR 0xED, CHR 0x8C, CHR 0x8C, CHR 0xEC, CHR 0x9D, CHR 0xBC, CHR 0xEC, CHR 0x9D, CHR 0x84] @
     '' '' @
     [CHR 0xEC, CHR 0xB0, CHR 0xBE, CHR 0xEC, CHR 0x9D, CHR 0x84] @
     '' '' @
     [CHR 0xEC, CHR 0x88, CHR 0x98] @
     '' '' @
     [CHR 0xEC, CHR 0x97, CHR 0x86, CHR 0xEC, CHR 0x8A, CHR 0xB5, CHR 0xEB, CHR 0x8B, CHR 0x88, CHR 0xEB, CHR 0x8B, CHR 0xA4] @
     '': ''"

definition ko_create_config :: string where
  \<comment> \<open> (file) -- please create it.\<close>
  "ko_create_config =
     '' '' @
     [CHR 0xED, CHR 0x8C, CHR 0x8C, CHR 0xEC, CHR 0x9D, CHR 0xBC, CHR 0xEC, CHR 0x9D, CHR 0x84] @
     '' '' @
     [CHR 0xEC, CHR 0x83, CHR 0x9D, CHR 0xEC, CHR 0x84, CHR 0xB1, CHR 0xED, CHR 0x95, CHR 0xB4] @
     '' '' @
     [CHR 0xEC, CHR 0xA3, CHR 0xBC, CHR 0xEC, CHR 0x84, CHR 0xB8, CHR 0xEC, CHR 0x9A, CHR 0x94] @
     ''.''"

definition ko_db_not_found :: string where
  \<comment> \<open> database could not be found.\<close>
  "ko_db_not_found =
     '' '' @
     [CHR 0xEB, CHR 0x8D, CHR 0xB0, CHR 0xEC, CHR 0x9D, CHR 0xB4, CHR 0xED, CHR 0x84, CHR 0xB0, CHR 0xEB, CHR 0xB2, CHR 0xA0, CHR 0xEC, CHR 0x9D, CHR 0xB4, CHR 0xEC, CHR 0x8A, CHR 0xA4, CHR 0xEB, CHR 0xA5, CHR 0xBC] @
     '' '' @
     [CHR 0xEC, CHR 0xB0, CHR 0xBE, CHR 0xEC, CHR 0x9D, CHR 0x84] @
     '' '' @
     [CHR 0xEC, CHR 0x88, CHR 0x98] @
     '' '' @
     [CHR 0xEC, CHR 0x97, CHR 0x86, CHR 0xEC, CHR 0x8A, CHR 0xB5, CHR 0xEB, CHR 0x8B, CHR 0x88, CHR 0xEB, CHR 0x8B, CHR 0xA4] @
     ''.''"

definition ko_available_db :: string where
  \<comment> \<open>Available DBs: \<close>
  "ko_available_db =
     [CHR 0xEC, CHR 0x82, CHR 0xAC, CHR 0xEC, CHR 0x9A, CHR 0xA9] @
     '' '' @
     [CHR 0xEA, CHR 0xB0, CHR 0x80, CHR 0xEB, CHR 0x8A, CHR 0xA5, CHR 0xED, CHR 0x95, CHR 0x9C] @
     '' DB: ''"

definition ko_ga_not_installed :: string where
  \<comment> \<open>(subject particle ga) is not installed.\<close>
  "ko_ga_not_installed =
     [CHR 0xEA, CHR 0xB0, CHR 0x80] @
     '' '' @
     [CHR 0xEC, CHR 0x84, CHR 0xA4, CHR 0xEC, CHR 0xB9, CHR 0x98, CHR 0xEB, CHR 0x90, CHR 0x98, CHR 0xEC, CHR 0xA7, CHR 0x80] @
     '' '' @
     [CHR 0xEC, CHR 0x95, CHR 0x8A, CHR 0xEC, CHR 0x95, CHR 0x98, CHR 0xEC, CHR 0x8A, CHR 0xB5, CHR 0xEB, CHR 0x8B, CHR 0x88, CHR 0xEB, CHR 0x8B, CHR 0xA4] @
     ''.''"

definition ko_i_not_installed :: string where
  \<comment> \<open>(subject particle i) is not installed.\<close>
  "ko_i_not_installed =
     [CHR 0xEC, CHR 0x9D, CHR 0xB4] @
     '' '' @
     [CHR 0xEC, CHR 0x84, CHR 0xA4, CHR 0xEC, CHR 0xB9, CHR 0x98, CHR 0xEB, CHR 0x90, CHR 0x98, CHR 0xEC, CHR 0xA7, CHR 0x80] @
     '' '' @
     [CHR 0xEC, CHR 0x95, CHR 0x8A, CHR 0xEC, CHR 0x95, CHR 0x98, CHR 0xEC, CHR 0x8A, CHR 0xB5, CHR 0xEB, CHR 0x8B, CHR 0x88, CHR 0xEB, CHR 0x8B, CHR 0xA4] @
     ''.''"

definition ko_install :: string where
  \<comment> \<open>Install: \<close>
  "ko_install =
     [CHR 0xEC, CHR 0x84, CHR 0xA4, CHR 0xEC, CHR 0xB9, CHR 0x98] @
     '': ''"

definition ko_unsupported_type :: string where
  \<comment> \<open>Unsupported DB type: \<close>
  "ko_unsupported_type =
     [CHR 0xEC, CHR 0xA7, CHR 0x80, CHR 0xEC, CHR 0x9B, CHR 0x90, CHR 0xED, CHR 0x95, CHR 0x98, CHR 0xEC, CHR 0xA7, CHR 0x80] @
     '' '' @
     [CHR 0xEC, CHR 0x95, CHR 0x8A, CHR 0xEB, CHR 0x8A, CHR 0x94] @
     '' DB '' @
     [CHR 0xEC, CHR 0x9C, CHR 0xA0, CHR 0xED, CHR 0x98, CHR 0x95] @
     '': ''"

definition ko_supported_types :: string where
  \<comment> \<open>Supported types: \<close>
  "ko_supported_types =
     [CHR 0xEC, CHR 0xA7, CHR 0x80, CHR 0xEC, CHR 0x9B, CHR 0x90] @
     '' '' @
     [CHR 0xEC, CHR 0x9C, CHR 0xA0, CHR 0xED, CHR 0x98, CHR 0x95] @
     '': ''"

definition ko_success :: string where
  \<comment> \<open>(check mark) Success: \<close>
  "ko_success =
     [CHR 0xE2, CHR 0x9C, CHR 0x85] @
     '' '' @
     [CHR 0xEC, CHR 0x84, CHR 0xB1, CHR 0xEA, CHR 0xB3, CHR 0xB5] @
     '': ''"

definition ko_rows_to :: string where
  \<comment> \<open>rows (subject)\<close>
  "ko_rows_to =
     [CHR 0xED, CHR 0x96, CHR 0x89, CHR 0xEC, CHR 0x9D, CHR 0xB4] @
     '' ''"

definition ko_of :: string where
  \<comment> \<open>(possessive particle)\<close>
  "ko_of =
     [CHR 0xEC, CHR 0x9D, CHR 0x98] @
     '' ''"

definition ko_table_at :: string where
  \<comment> \<open> table, into\<close>
  "ko_table_at =
     '' '' @
     [CHR 0xED, CHR 0x85, CHR 0x8C, CHR 0xEC, CHR 0x9D, CHR 0xB4, CHR 0xEB, CHR 0xB8, CHR 0x94, CHR 0xEC, CHR 0x97, CHR 0x90] @
     '' ''"

definition ko_done :: string where
  \<comment> \<open> has been done.\<close>
  "ko_done =
     '' '' @
     [CHR 0xEB, CHR 0x90, CHR 0x98, CHR 0xEC, CHR 0x97, CHR 0x88, CHR 0xEC, CHR 0x8A, CHR 0xB5, CHR 0xEB, CHR 0x8B, CHR 0x88, CHR 0xEB, CHR 0x8B, CHR 0xA4] @
     ''.''"

definition ko_failure :: string where
  \<comment> \<open>(cross mark) Failure: \<close>
  "ko_failure =
     [CHR 0xE2, CHR 0x9D, CHR 0x8C] @
     '' '' @
     [CHR 0xEC, CHR 0x8B, CHR 0xA4, CHR 0xED, CHR 0x8C, CHR 0xA8] @
     '': ''"

definition ko_need_one :: string where
  \<comment> \<open>One of query or table_name must be given.\<close>
  "ko_need_one =
     ''query '' @
     [CHR 0xEB, CHR 0x98, CHR 0x90, CHR 0xEB, CHR 0x8A, CHR 0x94] @
     '' table_name '' @
     [CHR 0xEC, CHR 0xA4, CHR 0x91] @
     '' '' @
     [CHR 0xED, CHR 0x95, CHR 0x98, CHR 0xEB, CHR 0x82, CHR 0x98, CHR 0xEB, CHR 0xA5, CHR 0xBC] @
     '' '' @
     [CHR 0xEC, CHR 0xA7, CHR 0x80, CHR 0xEC, CHR 0xA0, CHR 0x95, CHR 0xED, CHR 0x95, CHR 0xB4, CHR 0xEC, CHR 0x95, CHR 0xBC] @
     '' '' @
     [CHR 0xED, CHR 0x95, CHR 0xA9, CHR 0xEB, CHR 0x8B, CHR 0x88, CHR 0xEB, CHR 0x8B, CHR 0xA4] @
     ''.''"

definition ko_not_both :: string where
  \<comment> \<open>query and table_name cannot be given together.\<close>
  "ko_not_both =
     ''query'' @
     [CHR 0xEC, CHR 0x99, CHR 0x80] @
     '' table_name'' @
     [CHR 0xEC, CHR 0x9D, CHR 0x84] @
     '' '' @
     [CHR 0xEB, CHR 0x8F, CHR 0x99, CHR 0xEC, CHR 0x8B, CHR 0x9C, CHR 0xEC, CHR 0x97, CHR 0x90] @
     '' '' @
     [CHR 0xEC, CHR 0xA7, CHR 0x80, CHR 0xEC, CHR 0xA0, CHR 0x95, CHR 0xED, CHR 0x95, CHR 0xA0] @
     '' '' @
     [CHR 0xEC, CHR 0x88, CHR 0x98] @
     '' '' @
     [CHR 0xEC, CHR 0x97, CHR 0x86, CHR 0xEC, CHR 0x8A, CHR 0xB5, CHR 0xEB, CHR 0x8B, CHR 0x88, CHR 0xEB, CHR 0x8B, CHR 0xA4] @
     ''.''"

section \<open>Configuration\<close>

text \<open>
  A profile is a JSON object; its members are strings or integers. The configuration
  file is absent, unparsable, or a JSON object of which only the member
  \<open>databases\<close> is read (\<open>None\<close> when the object has no such member).
\<close>

datatype jval = JStr string | JInt int

type_synonym profile = "(string \<times> jval) list"

type_synonym databases = "(string \<times> profile) list"

datatype file_state = NoFile | BadJson | Json "databases option"

text \<open>How an f-string prints a member.\<close>

fun fmt :: "jval \<Rightarrow> string" where
  "fmt (JStr s) = s"
| "fmt (JInt i) = show_int i"

section \<open>Errors\<close>

text \<open>
  Each constructor stands for the raise sites of one kind and carries the message:
  \<open>ConfigNotFound\<close> is the \<open>FileNotFoundError\<close> of \<open>_load_config\<close>; \<open>ParseError\<close> is what
  \<open>json.load\<close> raises; \<open>UnknownDatabase\<close>, \<open>UnsupportedType\<close> and \<open>InvalidArguments\<close> are
  the \<open>ValueError\<close>s; \<open>DriverUnavailable\<close> is the \<open>ImportError\<close>; \<open>MissingField k\<close> is the
  \<open>KeyError\<close> of \<open>db_config[k]\<close>; \<open>AttributeError\<close> is \<open>.lower()\<close> on a member that is
  not a string; \<open>LibraryError\<close> is any exception raised inside a client library, with
  its \<open>str\<close>.
\<close>

datatype error =
    ConfigNotFound string
  | ParseError
  | UnknownDatabase string
  | UnsupportedType string
  | DriverUnavailable string
  | InvalidArguments string
  | MissingField string
  | AttributeError
  | LibraryError string

section \<open>Handles, the collaborators and the trace of effects\<close>

record conn_args =
  host :: jval
  port :: jval
  user :: jval
  password :: jval
  database :: jval

text \<open>
  \<open>Psycopg2 a\<close> is a connection made by \<open>psycopg2.connect\<close> with the keyword arguments
  \<open>a\<close>; \<open>Pymysql a cs\<close> one made by \<open>pymysql.connect\<close> with the extra \<open>charset=cs\<close>.
  An engine is known by its URL.
\<close>

datatype conn = Psycopg2 conn_args | Pymysql conn_args string

datatype engine = Engine string

text \<open>The keyword arguments of \<open>DataFrame.to_sql\<close>; a data frame is its list of rows.\<close>

record 'r to_sql_call =
  sql_frame :: "'r list"
  sql_name :: string
  sql_con :: engine
  sql_schema :: "string option"
  sql_if_exists :: string
  sql_index :: bool
  sql_method :: string
  sql_chunksize :: nat

text \<open>
  What a call does to the outside, in order. \<open>Connect\<close> and \<open>CreateEngine\<close> record the
  outcome: \<open>None\<close> when the handle was returned, \<open>Some m\<close> when the library raised
  with message \<open>m\<close>.
\<close>

datatype 'r event =
    LoadConfig
  | Connect conn "string option"
  | ReadSql string conn
  | Close conn
  | CreateEngine string "string option"
  | ToSql "'r to_sql_call"
  | Print string
  | Dispose engine

text \<open>
  The surroundings of a call: the configuration file and its path, which modules can be
  imported, and the behaviour of the client libraries (\<open>Some m\<close> and \<open>Inl m\<close>: the
  library raises with message \<open>m\<close>). \<open>close\<close>, \<open>dispose\<close> and \<open>print\<close> are taken not to
  raise.
\<close>

record 'r env =
  config_path :: string
  config_file :: file_state
  importable :: "string \<Rightarrow> bool"
  driver_connect :: "conn \<Rightarrow> string option"
  create_engine :: "string \<Rightarrow> string option"
  read_sql :: "string \<Rightarrow> conn \<Rightarrow> string + 'r list"
  to_sql :: "'r to_sql_call \<Rightarrow> string option"

text \<open>The handles a trace leaves open.\<close>

datatype resource = RConn conn | REngine engine

fun track :: "resource list \<Rightarrow> 'r event \<Rightarrow> resource list" where
  "track rs (Connect c None) = rs @ [RConn c]"
| "track rs (CreateEngine u None) = rs @ [REngine (Engine u)]"
| "track rs (Close c) = remove1 (RConn c) rs"
| "track rs (Dispose e) = remove1 (REngine e) rs"
| "track rs _ = rs"

definition live :: "'r event list \<Rightarrow> resource list" where
  "live tr = foldl track [] tr"

section \<open>The module\<close>

text \<open>\<open>_load_config\<close>.\<close>

definition load_config :: "'r env \<Rightarrow> error + databases option" where
  "load_config w =
     (case config_file w of
        NoFile \<Rightarrow>
          Inl (ConfigNotFound
                 (ko_config_not_found @ config_path w @ ''\<newline>'' @
                  ''db_config.json'' @ ko_create_config))
      | BadJson \<Rightarrow> Inl ParseError
      | Json config \<Rightarrow> Inr config)"

text \<open>\<open>config.get("databases", {})\<close>.\<close>

definition databases_of :: "databases option \<Rightarrow> databases" where
  "databases_of config = (case config of None \<Rightarrow> [] | Some d \<Rightarrow> d)"

text \<open>\<open>db_config.get("type", "").lower()\<close>.\<close>

definition db_type_of :: "profile \<Rightarrow> error + string" where
  "db_type_of db_config =
     (case map_of db_config ''type'' of
        None \<Rightarrow> Inr (lower [])
      | Some (JStr s) \<Rightarrow> Inr (lower s)
      | Some (JInt i) \<Rightarrow> Inl AttributeError)"

text \<open>\<open>db_config[k]\<close>.\<close>

definition subscript :: "profile \<Rightarrow> string \<Rightarrow> error + jval" where
  "subscript db_config k =
     (case map_of db_config k of None \<Rightarrow> Inl (MissingField k) | Some v \<Rightarrow> Inr v)"

text \<open>The keyword arguments of both \<open>connect\<close> calls, evaluated in the order written.\<close>

definition conn_kwargs :: "profile \<Rightarrow> error + conn_args" where
  "conn_kwargs db_config =
     (case subscript db_config ''host'' of Inl e \<Rightarrow> Inl e | Inr h \<Rightarrow>
     (case subscript db_config ''port'' of Inl e \<Rightarrow> Inl e | Inr p \<Rightarrow>
     (case subscript db_config ''user'' of Inl e \<Rightarrow> Inl e | Inr u \<Rightarrow>
     (case subscript db_config ''password'' of Inl e \<Rightarrow> Inl e | Inr pw \<Rightarrow>
     (case subscript db_config ''database'' of Inl e \<Rightarrow> Inl e | Inr d \<Rightarrow>
        Inr \<lparr>host = h, port = p, user = u, password = pw, database = d\<rparr>)))))"

text \<open>The call of the client's \<open>connect\<close>.\<close>

definition call_connect :: "'r env \<Rightarrow> conn \<Rightarrow> (error + conn) \<times> 'r event list" where
  "call_connect w c =
     (case driver_connect w c of
        None \<Rightarrow> (Inr c, [Connect c None])
      | Some m \<Rightarrow> (Inl (LibraryError m), [Connect c (Some m)]))"

definition get_connection :: "'r env \<Rightarrow> string \<Rightarrow> (error + conn) \<times> 'r event list" where
  "get_connection w db_name =
     (case load_config w of
        Inl e \<Rightarrow> (Inl e, [LoadConfig])
      | Inr config \<Rightarrow>
          (let databases = databases_of config in
           case map_of databases db_name of
             None \<Rightarrow>
               (let available = join '', '' (map fst databases) in
                (Inl (UnknownDatabase
                        (quoted db_name @ ko_db_not_found @ ''\<newline>'' @
                         ko_available_db @ available)),
                 [LoadConfig]))
           | Some db_config \<Rightarrow>
               (case db_type_of db_config of
                  Inl e \<Rightarrow> (Inl e, [LoadConfig])
                | Inr db_type \<Rightarrow>
                    if db_type = ''postgresql'' then
                      (if \<not> importable w ''psycopg2'' then
                         (Inl (DriverUnavailable
                                 (''psycopg2'' @ ko_ga_not_installed @ ''\<newline>'' @
                                  ko_install @ ''pip install psycopg2-binary'')),
                          [LoadConfig])
                       else
                         (case conn_kwargs db_config of
                            Inl e \<Rightarrow> (Inl e, [LoadConfig])
                          | Inr a \<Rightarrow>
                              (case call_connect w (Psycopg2 a) of
                                 (r, tr) \<Rightarrow> (r, LoadConfig # tr))))
                    else if db_type = ''mariadb'' then
                      (if \<not> importable w ''pymysql'' then
                         (Inl (DriverUnavailable
                                 (''pymysql'' @ ko_i_not_installed @ ''\<newline>'' @
                                  ko_install @ ''pip install pymysql'')),
                          [LoadConfig])
                       else
                         (case conn_kwargs db_config of
                            Inl e \<Rightarrow> (Inl e, [LoadConfig])
                          | Inr a \<Rightarrow>
                              (case call_connect w (Pymysql a ''utf8mb4'') of
                                 (r, tr) \<Rightarrow> (r, LoadConfig # tr))))
                    else
                      (Inl (UnsupportedType
                              (ko_unsupported_type @ db_type @ ''\<newline>'' @
                               ko_supported_types @ ''postgresql, mariadb'')),
                       [LoadConfig]))))"

text \<open>The URL of \<open>get_engine\<close>; the members are read in the order the f-string names them.\<close>

definition engine_url :: "string \<Rightarrow> profile \<Rightarrow> error + string" where
  "engine_url driver db_config =
     (case subscript db_config ''user'' of Inl e \<Rightarrow> Inl e | Inr u \<Rightarrow>
     (case subscript db_config ''password'' of Inl e \<Rightarrow> Inl e | Inr pw \<Rightarrow>
     (case subscript db_config ''host'' of Inl e \<Rightarrow> Inl e | Inr h \<Rightarrow>
     (case subscript db_config ''port'' of Inl e \<Rightarrow> Inl e | Inr p \<Rightarrow>
     (case subscript db_config ''database'' of Inl e \<Rightarrow> Inl e | Inr d \<Rightarrow>
        Inr (driver @ ''://'' @ fmt u @ '':'' @ fmt pw @ ''@'' @ fmt h @ '':'' @ fmt p @
             ''/'' @ fmt d))))))"

definition get_engine :: "'r env \<Rightarrow> string \<Rightarrow> (error + engine) \<times> 'r event list" where
  "get_engine w db_name =
     (case load_config w of
        Inl e \<Rightarrow> (Inl e, [LoadConfig])
      | Inr config \<Rightarrow>
          (let databases = databases_of config in
           case map_of databases db_name of
             None \<Rightarrow>
               (Inl (UnknownDatabase (quoted db_name @ ko_db_not_found)), [LoadConfig])
           | Some db_config \<Rightarrow>
               (case db_type_of db_config of
                  Inl e \<Rightarrow> (Inl e, [LoadConfig])
                | Inr db_type \<Rightarrow>
                    (let driver =
                       (if db_type = ''postgresql'' then ''postgresql''
                        else ''mysql+pymysql'')
                     in
                     case engine_url driver db_config of
                       Inl e \<Rightarrow> (Inl e, [LoadConfig])
                     | Inr url \<Rightarrow>
                         (case create_engine w url of
                            None \<Rightarrow>
                              (Inr (Engine url), [LoadConfig, CreateEngine url None])
                          | Some m \<Rightarrow>
                              (Inl (LibraryError m),
                               [LoadConfig, CreateEngine url (Some m)]))))))"

text \<open>
  \<open>save_dataframe\<close>. The defaults \<open>schema=None\<close>, \<open>if_exists='append'\<close> and
  \<open>index=False\<close> are the caller's to pass.
\<close>

definition save_dataframe ::
  "'r env \<Rightarrow> 'r list \<Rightarrow> string \<Rightarrow> string \<Rightarrow> string option \<Rightarrow> string \<Rightarrow> bool \<Rightarrow>
   (error + unit) \<times> 'r event list" where
  "save_dataframe w df db_name table_name schema if_exists index =
     (case get_engine w db_name of
        (Inl e, tr) \<Rightarrow> (Inl e, tr)
      | (Inr engine, tr) \<Rightarrow>
          (let call = \<lparr>sql_frame = df, sql_name = table_name, sql_con = engine,
                       sql_schema = schema, sql_if_exists = if_exists, sql_index = index,
                       sql_method = ''multi'', sql_chunksize = 1000\<rparr>
           in
           case to_sql w call of
             None \<Rightarrow>
               (let target =
                  (case schema of
                     None \<Rightarrow> table_name
                   | Some s \<Rightarrow> if s = [] then table_name else s @ ''.'' @ table_name)
                in
                (Inr (),
                 tr @ [ToSql call,
                       Print (ko_success @ group_thousands (length df) @ ko_rows_to @
                              quoted db_name @ ko_of @ quoted target @ ko_table_at @
                              if_exists @ ko_done),
                       Dispose engine]))
           | Some m \<Rightarrow>
               (Inl (LibraryError m),
                tr @ [ToSql call, Print (ko_failure @ m), Dispose engine])))"

text \<open>
  \<open>get_dataframe\<close>. On the path past the two checks exactly one of \<open>query\<close> and
  \<open>table_name\<close> is set, so \<open>the query\<close> is read only when \<open>query\<close> is not \<open>None\<close>.
\<close>

definition get_dataframe ::
  "'r env \<Rightarrow> string \<Rightarrow> string option \<Rightarrow> string option \<Rightarrow> string option \<Rightarrow> int option \<Rightarrow>
   (error + 'r list) \<times> 'r event list" where
  "get_dataframe w db_name query table_name schema limit =
     (if query = None \<and> table_name = None then
        (Inl (InvalidArguments ko_need_one), [])
      else if query \<noteq> None \<and> table_name \<noteq> None then
        (Inl (InvalidArguments ko_not_both), [])
      else
        (let sql =
           (case table_name of
              Some t \<Rightarrow>
                (let full_table_name =
                   (case schema of
                      None \<Rightarrow> t
                    | Some s \<Rightarrow> if s = [] then t else s @ ''.'' @ t)
                 in
                 case limit of
                   Some n \<Rightarrow> ''SELECT * FROM '' @ full_table_name @ '' LIMIT '' @ show_int n
                 | None \<Rightarrow> ''SELECT * FROM '' @ full_table_name)
            | None \<Rightarrow> the query)
         in
         case get_connection w db_name of
           (Inl e, tr) \<Rightarrow> (Inl e, tr)
         | (Inr conn, tr) \<Rightarrow>
             (case read_sql w sql conn of
                Inr df \<Rightarrow> (Inr df, tr @ [ReadSql sql conn, Close conn])
              | Inl m \<Rightarrow> (Inl (LibraryError m), tr @ [ReadSql sql conn, Close conn]))))"

text \<open>\<open>get_tables\<close>; the two catalogue queries keep the line breaks and indentation of the source.\<close>

definition get_tables ::
  "'r env \<Rightarrow> string \<Rightarrow> string option \<Rightarrow> (error + 'r list) \<times> 'r event list" where
  "get_tables w db_name schema =
     (case load_config w of
        Inl e \<Rightarrow> (Inl e, [LoadConfig])
      | Inr config \<Rightarrow>
          (let databases = databases_of config in
           case map_of databases db_name of
             None \<Rightarrow>
               (Inl (UnknownDatabase (quoted db_name @ ko_db_not_found)), [LoadConfig])
           | Some db_config \<Rightarrow>
               (case db_type_of db_config of
                  Inl e \<Rightarrow> (Inl e, [LoadConfig])
                | Inr db_type \<Rightarrow>
                    (let built =
                       (if db_type = ''postgresql'' then
                          (let target_schema =
                             (case schema of
                                None \<Rightarrow> ''public''
                              | Some s \<Rightarrow> if s = [] then ''public'' else s)
                           in
                           Inr (''\<newline>            SELECT table_name, table_type'' @
                                ''\<newline>            FROM information_schema.tables'' @
                                ''\<newline>            WHERE table_schema = '' @
                                quoted target_schema @
                                ''\<newline>            ORDER BY table_name'' @
                                ''\<newline>        ''))
                        else if db_type = ''mariadb'' then
                          (let schema_filter =
                             (case schema of
                                None \<Rightarrow> ''AND TABLE_SCHEMA = DATABASE()''
                              | Some s \<Rightarrow>
                                  if s = [] then ''AND TABLE_SCHEMA = DATABASE()''
                                  else ''AND TABLE_SCHEMA = '' @ quoted s)
                           in
                           Inr (''\<newline>            SELECT TABLE_NAME as table_name, TABLE_TYPE as table_type'' @
                                ''\<newline>            FROM information_schema.TABLES'' @
                                ''\<newline>            WHERE 1=1 '' @ schema_filter @
                                ''\<newline>            ORDER BY TABLE_NAME'' @
                                ''\<newline>        ''))
                        else Inl (UnsupportedType (ko_unsupported_type @ db_type)))
                     in
                     case built of
                       Inl e \<Rightarrow> (Inl e, [LoadConfig])
                     | Inr query \<Rightarrow>
                         (case get_dataframe w db_name (Some query) None None None of
                            (r, tr) \<Rightarrow> (r, LoadConfig # tr))))))"

text \<open>\<open>preview\<close>; the default \<open>n=5\<close> is the caller's to pass.\<close>

definition preview ::
  "'r env \<Rightarrow> string \<Rightarrow> string \<Rightarrow> string option \<Rightarrow> int \<Rightarrow> (error + 'r list) \<times> 'r event list" where
  "preview w db_name table_name schema n =
     get_dataframe w db_name None (Some table_name) schema (Some n)"

section \<open>Concrete configurations\<close>

text \<open>
  The configuration of the specification's scenario: one PostgreSQL profile \<open>demo\<close>.
  In \<open>demo_env\<close> every library call succeeds; in \<open>failing_env\<close> the query and the bulk
  insert raise.
\<close>

definition demo_profile :: profile where
  "demo_profile =
     [(''type'', JStr ''postgresql''), (''host'', JStr ''localhost''), (''port'', JInt 5432),
      (''user'', JStr ''u''), (''password'', JStr ''p''), (''database'', JStr ''d'')]"

definition demo_args :: conn_args where
  "demo_args =
     \<lparr>host = JStr ''localhost'', port = JInt 5432, user = JStr ''u'',
      password = JStr ''p'', database = JStr ''d''\<rparr>"

definition env_of :: "databases \<Rightarrow> nat env" where
  "env_of dbs =
     \<lparr>config_path = ''/app/db_config.json'',
      config_file = Json (Some dbs),
      importable = (\<lambda>m. True),
      driver_connect = (\<lambda>c. None),
      create_engine = (\<lambda>u. None),
      read_sql = (\<lambda>q c. Inr [7, 8]),
      to_sql = (\<lambda>c. None)\<rparr>"

definition demo_env :: "nat env" where
  "demo_env = env_of [(''demo'', demo_profile)]"

definition failing_env :: "nat env" where
  "failing_env =
     demo_env\<lparr>read_sql := (\<lambda>q c. Inl ''relation does not exist''),
               to_sql := (\<lambda>c. Some ''connection refused'')\<rparr>"

text \<open>\<open>demo_env\<close> without the PostgreSQL client library.\<close>

definition no_driver_env :: "nat env" where
  "no_driver_env = demo_env\<lparr>importable := (\<lambda>m. False)\<rparr>"

text \<open>A MariaDB profile, its type written with capitals.\<close>

definition maria_profile :: profile where
  "maria_profile =
     [(''type'', JStr ''MariaDB''), (''host'', JStr ''db.local''), (''port'', JInt 3306),
      (''user'', JStr ''m''), (''password'', JStr ''s''), (''database'', JStr ''shop'')]"

definition maria_args :: conn_args where
  "maria_args =
     \<lparr>host = JStr ''db.local'', port = JInt 3306, user = JStr ''m'',
      password = JStr ''s'', database = JStr ''shop''\<rparr>"

definition maria_env :: "nat env" where
  "maria_env = env_of [(''demo'', demo_profile), (''shop'', maria_profile)]"

text \<open>A profile of a type the module does not support.\<close>

definition sqlite_profile :: profile where
  "sqlite_profile =
     [(''type'', JStr ''sqlite''), (''host'', JStr ''localhost''), (''port'', JInt 5432),
      (''user'', JStr ''u''), (''password'', JStr ''p''), (''database'', JStr ''d'')]"

definition sqlite_env :: "nat env" where
  "sqlite_env = env_of [(''demo'', sqlite_profile)]"

text \<open>A profile without \<open>type\<close>, and a PostgreSQL profile without \<open>port\<close>.\<close>

definition no_type_profile :: profile where
  "no_type_profile =
     [(''host'', JStr ''localhost''), (''port'', JInt 5432),
      (''user'', JStr ''u''), (''password'', JStr ''p''), (''database'', JStr ''d'')]"

definition no_type_env :: "nat env" where
  "no_type_env = env_of [(''demo'', no_type_profile)]"

definition no_port_profile :: profile where
  "no_port_profile =
     [(''type'', JStr ''postgresql''), (''host'', JStr ''localhost''),
      (''user'', JStr ''u''), (''password'', JStr ''p''), (''database'', JStr ''d'')]"

definition no_port_env :: "nat env" where
  "no_port_env = env_of [(''demo'', no_port_profile)]"

text \<open>\<open>demo_env\<close> without its configuration file.\<close>

definition absent_env :: "nat env" where
  "absent_env = demo_env\<lparr>config_file := NoFile\<rparr>"

section \<open>Auxiliary facts\<close>

subsection \<open>Unfolding the definitions on a concrete configuration\<close>

lemmas demo_defs = demo_env_def env_of_def demo_profile_def demo_args_def failing_env_def
  no_driver_env_def sqlite_env_def no_type_env_def no_port_profile_def no_port_env_def
  absent_env_def no_type_profile_def maria_profile_def maria_args_def maria_env_def sqlite_profile_def

lemmas eval_defs = load_config_def databases_of_def db_type_of_def lower_def lower_char_def
  conn_kwargs_def subscript_def call_connect_def engine_url_def quoted_def show_int_def
  show_nat.simps digit_char_def

lemma load_config_loaded: "config_file w = Json c \<Longrightarrow> load_config w = Inr c"
  by (simp add: load_config_def)

lemma demo_connection:
  "get_connection demo_env ''demo'' =
     (Inr (Psycopg2 demo_args), [LoadConfig, Connect (Psycopg2 demo_args) None])"
  by (simp add: get_connection_def demo_defs eval_defs)

lemma failing_connection:
  "get_connection failing_env ''demo'' =
     (Inr (Psycopg2 demo_args), [LoadConfig, Connect (Psycopg2 demo_args) None])"
  by (simp add: get_connection_def demo_defs eval_defs)

lemma demo_engine:
  "get_engine demo_env ''demo'' =
     (Inr (Engine ''postgresql://u:p@localhost:5432/d''),
      [LoadConfig, CreateEngine ''postgresql://u:p@localhost:5432/d'' None])"
  by (simp add: get_engine_def demo_defs eval_defs)

subsection \<open>What \<open>get_connection\<close> and \<open>get_engine\<close> leave in the trace\<close>

lemma get_connection_trace:
  "get_connection w db = (r, tr) \<Longrightarrow>
     (case r of Inr c \<Rightarrow> tr = [LoadConfig, Connect c None]
      | Inl e \<Rightarrow> tr = [LoadConfig] \<or> (\<exists>c m. tr = [LoadConfig, Connect c (Some m)]))"
  by (auto simp: get_connection_def call_connect_def Let_def
      split: sum.splits option.splits if_splits prod.splits)

lemma get_engine_trace:
  "get_engine w db = (r, tr) \<Longrightarrow>
     (case r of Inr e \<Rightarrow> tr = [LoadConfig, CreateEngine (case e of Engine u \<Rightarrow> u) None]
      | Inl e \<Rightarrow> tr = [LoadConfig] \<or> (\<exists>u m. tr = [LoadConfig, CreateEngine u (Some m)]))"
  by (auto simp: get_engine_def Let_def
      split: sum.splits option.splits if_splits prod.splits)

subsection \<open>The errors of the lookup\<close>







subsection \<open>\<open>get_dataframe\<close> and \<open>save_dataframe\<close> around their handle\<close>

lemma get_dataframe_run:
  assumes "(query = None) \<noteq> (table_name = None)"
    and "get_connection w db = (Inr c, tr)"
  shows "\<exists>sql. get_dataframe w db query table_name schema limit =
           (case read_sql w sql c of
              Inr df \<Rightarrow> (Inr df, tr @ [ReadSql sql c, Close c])
            | Inl m \<Rightarrow> (Inl (LibraryError m), tr @ [ReadSql sql c, Close c]))"
  using assms by (auto simp: get_dataframe_def Let_def)

lemma get_dataframe_no_conn:
  assumes "(query = None) \<noteq> (table_name = None)"
    and "get_connection w db = (Inl e, tr)"
  shows "get_dataframe w db query table_name schema limit = (Inl e, tr)"
  using assms by (auto simp: get_dataframe_def Let_def)

lemma live_append: "live (xs @ ys) = foldl track (live xs) ys"
  by (simp add: live_def)

lemma get_connection_live:
  "get_connection w db = (r, tr) \<Longrightarrow>
     live tr = (case r of Inr c \<Rightarrow> [RConn c] | Inl e \<Rightarrow> [])"
  by (drule get_connection_trace) (auto simp: live_def split: sum.splits)

lemma get_engine_live:
  "get_engine w db = (r, tr) \<Longrightarrow>
     live tr = (case r of Inr e \<Rightarrow> [REngine e] | Inl e \<Rightarrow> [])"
  by (drule get_engine_trace) (auto simp: live_def split: sum.splits engine.splits)

lemma get_dataframe_table_sql:
  assumes "get_connection w db = (Inr c, tr)"
  shows "snd (get_dataframe w db None (Some t) schema limit) =
           tr @ [ReadSql (''SELECT * FROM '' @
                          (case schema of None \<Rightarrow> t
                           | Some s \<Rightarrow> if s = [] then t else s @ ''.'' @ t) @
                          (case limit of None \<Rightarrow> [] | Some n \<Rightarrow> '' LIMIT '' @ show_int n)) c,
                 Close c]"
  using assms by (auto simp: get_dataframe_def Let_def split: option.splits sum.splits)

lemma get_dataframe_live:
  "live (snd (get_dataframe w db query table_name schema limit)) = []"
proof (cases "(query = None) \<noteq> (table_name = None)")
  case False
  then show ?thesis by (auto simp: get_dataframe_def live_def)
next
  case True
  obtain r tr where g: "get_connection w db = (r, tr)" by (cases "get_connection w db")
  show ?thesis
  proof (cases r)
    case (Inl e)
    with g True show ?thesis
      using get_connection_live [OF g] by (simp add: get_dataframe_no_conn)
  next
    case (Inr c)
    with g True obtain sql where
      "get_dataframe w db query table_name schema limit =
         (case read_sql w sql c of
            Inr df \<Rightarrow> (Inr df, tr @ [ReadSql sql c, Close c])
          | Inl m \<Rightarrow> (Inl (LibraryError m), tr @ [ReadSql sql c, Close c]))"
      using get_dataframe_run by blast
    then show ?thesis
      using get_connection_live [OF g] Inr by (auto simp: live_append split: sum.splits)
  qed
qed

lemma save_dataframe_trace:
  assumes "get_engine w db = (Inr e, tr)"
  shows "\<exists>call msg. snd (save_dataframe w df db table_name schema if_exists index) =
           tr @ [ToSql call, Print msg, Dispose e]"
  using assms by (auto simp: save_dataframe_def Let_def split: option.splits)

lemma save_dataframe_no_engine:
  assumes "get_engine w db = (Inl e, tr)"
  shows "save_dataframe w df db table_name schema if_exists index = (Inl e, tr)"
  using assms by (simp add: save_dataframe_def)

lemma save_dataframe_live:
  "live (snd (save_dataframe w df db table_name schema if_exists index)) = []"
proof -
  obtain r tr where g: "get_engine w db = (r, tr)" by (cases "get_engine w db")
  show ?thesis
  proof (cases r)
    case (Inl e)
    with g show ?thesis using get_engine_live [OF g] by (simp add: save_dataframe_no_engine)
  next
    case (Inr e)
    with g obtain call msg where
      "snd (save_dataframe w df db table_name schema if_exists index) =
         tr @ [ToSql call, Print msg, Dispose e]"
      using save_dataframe_trace by blast
    then show ?thesis using get_engine_live [OF g] Inr by (simp add: live_append)
  qed
qed

subsection \<open>Runs on the concrete configurations\<close>

lemma failing_engine:
  "get_engine failing_env ''demo'' =
     (Inr (Engine ''postgresql://u:p@localhost:5432/d''),
      [LoadConfig, CreateEngine ''postgresql://u:p@localhost:5432/d'' None])"
  by (simp add: get_engine_def demo_defs eval_defs)

lemma demo_query:
  "get_dataframe demo_env ''demo'' (Some ''SELECT 1'') None None None =
     (Inr [7, 8],
      [LoadConfig, Connect (Psycopg2 demo_args) None,
       ReadSql ''SELECT 1'' (Psycopg2 demo_args), Close (Psycopg2 demo_args)])"
  by (simp add: get_dataframe_def demo_connection) (simp add: demo_env_def env_of_def)

lemma failing_query:
  "get_dataframe failing_env ''demo'' (Some ''SELECT 1'') None None None =
     (Inl (LibraryError ''relation does not exist''),
      [LoadConfig, Connect (Psycopg2 demo_args) None,
       ReadSql ''SELECT 1'' (Psycopg2 demo_args), Close (Psycopg2 demo_args)])"
  by (simp add: get_dataframe_def failing_connection) (simp add: failing_env_def)

lemma demo_save:
  "save_dataframe demo_env [7, 8] ''demo'' ''t'' None ''append'' False =
     (Inr (),
      [LoadConfig, CreateEngine ''postgresql://u:p@localhost:5432/d'' None,
       ToSql \<lparr>sql_frame = [7, 8], sql_name = ''t'',
              sql_con = Engine ''postgresql://u:p@localhost:5432/d'', sql_schema = None,
              sql_if_exists = ''append'', sql_index = False, sql_method = ''multi'',
              sql_chunksize = 1000\<rparr>,
       Print (ko_success @ ''2'' @ ko_rows_to @ quoted ''demo'' @ ko_of @ quoted ''t'' @
              ko_table_at @ ''append'' @ ko_done),
       Dispose (Engine ''postgresql://u:p@localhost:5432/d'')])"
  by (simp add: save_dataframe_def demo_engine)
     (simp add: demo_env_def env_of_def group_thousands.simps show_nat.simps digit_char_def)

lemma failing_save:
  "save_dataframe failing_env [7, 8] ''demo'' ''t'' None ''append'' False =
     (Inl (LibraryError ''connection refused''),
      [LoadConfig, CreateEngine ''postgresql://u:p@localhost:5432/d'' None,
       ToSql \<lparr>sql_frame = [7, 8], sql_name = ''t'',
              sql_con = Engine ''postgresql://u:p@localhost:5432/d'', sql_schema = None,
              sql_if_exists = ''append'', sql_index = False, sql_method = ''multi'',
              sql_chunksize = 1000\<rparr>,
       Print (ko_failure @ ''connection refused''),
       Dispose (Engine ''postgresql://u:p@localhost:5432/d'')])"
  by (simp add: save_dataframe_def failing_engine) (simp add: failing_env_def)

subsection \<open>Names in the message for an unknown database\<close>

lemma sublist_join: "n \<in> set ns \<Longrightarrow> sublist n (join sep ns)"
proof (induction sep ns rule: join.induct)
  case (1 sep)
  then show ?case by simp
next
  case (2 sep x)
  then show ?case by simp
next
  case (3 sep x y ys)
  show ?case
  proof (cases "n = x")
    case True
    then show ?thesis by simp
  next
    case False
    with 3 have "sublist n (join sep (y # ys))" by simp
    then obtain ps ss where "join sep (y # ys) = ps @ n @ ss" by (auto simp: sublist_def)
    then have "join sep (x # y # ys) = (x @ sep @ ps) @ n @ ss" by simp
    then show ?thesis unfolding sublist_def by blast
  qed
qed

lemma sublist_quoted: "sublist s (quoted s @ rest)"
proof -
  have "quoted s @ rest = [CHR 0x27] @ s @ ([CHR 0x27] @ rest)" by (simp add: quoted_def)
  then show ?thesis unfolding sublist_def by blast
qed

lemma unknown_connection:
  assumes "config_file w = Json cfg" and "map_of (databases_of cfg) db = None"
  shows "get_connection w db =
           (Inl (UnknownDatabase
                   (quoted db @ ko_db_not_found @ ''\<newline>'' @ ko_available_db @
                    join '', '' (map fst (databases_of cfg)))),
            [LoadConfig])"
  using assms by (simp add: get_connection_def load_config_loaded Let_def)

lemma unknown_engine:
  assumes "config_file w = Json cfg" and "map_of (databases_of cfg) db = None"
  shows "get_engine w db = (Inl (UnknownDatabase (quoted db @ ko_db_not_found)), [LoadConfig])"
  using assms by (simp add: get_engine_def load_config_loaded Let_def)

lemma listed_in_message:
  "n \<in> set ns \<Longrightarrow> sublist n (pre @ join sep ns)"
proof -
  assume "n \<in> set ns"
  then obtain ps ss where "join sep ns = ps @ n @ ss"
    using sublist_join [of n ns sep] by (auto simp: sublist_def)
  then have "pre @ join sep ns = (pre @ ps) @ n @ ss" by simp
  then show ?thesis unfolding sublist_def by blast
qed

subsection \<open>The concrete profiles\<close>

lemma demo_unknown: "map_of (databases_of (Some [(''demo'', demo_profile)])) ''nope'' = None"
  by (simp add: databases_of_def)

lemma demo_file: "config_file demo_env = Json (Some [(''demo'', demo_profile)])"
  by (simp add: demo_env_def env_of_def)

lemma maria_file:
  "config_file maria_env = Json (Some [(''demo'', demo_profile), (''shop'', maria_profile)])"
  by (simp add: maria_env_def env_of_def)

lemma maria_known:
  "map_of (databases_of (Some [(''demo'', demo_profile), (''shop'', maria_profile)])) ''shop'' =
     Some maria_profile"
  by (simp add: databases_of_def)

lemma demo_known:
  "map_of (databases_of (Some [(''demo'', demo_profile)])) ''demo'' = Some demo_profile"
  by (simp add: databases_of_def)

lemma maria_type: "db_type_of maria_profile = Inr ''mariadb''"
  by (simp add: maria_profile_def db_type_of_def lower_def lower_char_def)

lemma demo_type: "db_type_of demo_profile = Inr ''postgresql''"
  by (simp add: demo_profile_def db_type_of_def lower_def lower_char_def)

lemma sqlite_type: "db_type_of sqlite_profile = Inr ''sqlite''"
  by (simp add: sqlite_profile_def db_type_of_def lower_def lower_char_def)

lemma maria_kwargs: "conn_kwargs maria_profile = Inr maria_args"
  by (simp add: maria_profile_def maria_args_def conn_kwargs_def subscript_def)

lemma demo_kwargs: "conn_kwargs demo_profile = Inr demo_args"
  by (simp add: demo_profile_def demo_args_def conn_kwargs_def subscript_def)

lemma sqlite_file: "config_file sqlite_env = Json (Some [(''demo'', sqlite_profile)])"
  by (simp add: sqlite_env_def env_of_def)

lemma sqlite_known:
  "map_of (databases_of (Some [(''demo'', sqlite_profile)])) ''demo'' = Some sqlite_profile"
  by (simp add: databases_of_def)

lemma no_driver_file: "config_file no_driver_env = Json (Some [(''demo'', demo_profile)])"
  by (simp add: no_driver_env_def demo_env_def env_of_def)

lemma maria_connection:
  "get_connection maria_env ''shop'' =
     (Inr (Pymysql maria_args ''utf8mb4''),
      [LoadConfig, Connect (Pymysql maria_args ''utf8mb4'') None])"
  by (simp add: get_connection_def demo_defs eval_defs)

lemma demo_tables:
  "get_tables demo_env ''demo'' None =
     (Inr [7, 8],
      [LoadConfig, LoadConfig, Connect (Psycopg2 demo_args) None,
       ReadSql (''\<newline>            SELECT table_name, table_type'' @
                ''\<newline>            FROM information_schema.tables'' @
                ''\<newline>            WHERE table_schema = '' @ [CHR 0x27] @ ''public'' @ [CHR 0x27] @
                ''\<newline>            ORDER BY table_name'' @
                ''\<newline>        '')
         (Psycopg2 demo_args),
       Close (Psycopg2 demo_args)])"
  by (simp add: get_tables_def load_config_loaded [OF demo_file] demo_known demo_type
        get_dataframe_def demo_connection quoted_def)
     (simp add: demo_env_def env_of_def)

lemma maria_tables:
  "get_tables maria_env ''shop'' (Some ''sales'') =
     (Inr [7, 8],
      [LoadConfig, LoadConfig, Connect (Pymysql maria_args ''utf8mb4'') None,
       ReadSql (''\<newline>            SELECT TABLE_NAME as table_name, TABLE_TYPE as table_type'' @
                ''\<newline>            FROM information_schema.TABLES'' @
                ''\<newline>            WHERE 1=1 AND TABLE_SCHEMA = '' @ [CHR 0x27] @ ''sales'' @ [CHR 0x27] @
                ''\<newline>            ORDER BY TABLE_NAME'' @
                ''\<newline>        '')
         (Pymysql maria_args ''utf8mb4''),
       Close (Pymysql maria_args ''utf8mb4'')])"
  by (simp add: get_tables_def load_config_loaded [OF maria_file] maria_known maria_type
        get_dataframe_def maria_connection quoted_def)
     (simp add: maria_env_def env_of_def)

lemma maria_tables_default:
  "get_tables maria_env ''shop'' None =
     (Inr [7, 8],
      [LoadConfig, LoadConfig, Connect (Pymysql maria_args ''utf8mb4'') None,
       ReadSql (''\<newline>            SELECT TABLE_NAME as table_name, TABLE_TYPE as table_type'' @
                ''\<newline>            FROM information_schema.TABLES'' @
                ''\<newline>            WHERE 1=1 AND TABLE_SCHEMA = DATABASE()'' @
                ''\<newline>            ORDER BY TABLE_NAME'' @
                ''\<newline>        '')
         (Pymysql maria_args ''utf8mb4''),
       Close (Pymysql maria_args ''utf8mb4'')])"
  by (simp add: get_tables_def load_config_loaded [OF maria_file] maria_known maria_type
        get_dataframe_def maria_connection quoted_def)
     (simp add: maria_env_def env_of_def)

subsection \<open>The first missing member\<close>

lemma find_missing_conn_kwargs:
  "find (\<lambda>k. map_of p k = None) [''host'', ''port'', ''user'', ''password'', ''database''] = Some f
   \<Longrightarrow> conn_kwargs p = Inl (MissingField f)"
  by (auto simp: conn_kwargs_def subscript_def split: if_splits option.splits)

lemma find_missing_engine_url:
  "find (\<lambda>k. map_of p k = None) [''user'', ''password'', ''host'', ''port'', ''database''] = Some f
   \<Longrightarrow> engine_url driver p = Inl (MissingField f)"
  by (auto simp: engine_url_def subscript_def split: if_splits option.splits)

lemma no_port_file: "config_file no_port_env = Json (Some [(''demo'', no_port_profile)])"
  by (simp add: no_port_env_def env_of_def)

lemma no_port_known:
  "map_of (databases_of (Some [(''demo'', no_port_profile)])) ''demo'' = Some no_port_profile"
  by (simp add: databases_of_def)

lemma no_port_type: "db_type_of no_port_profile = Inr ''postgresql''"
  by (simp add: no_port_profile_def db_type_of_def lower_def lower_char_def)

lemma no_port_find_conn:
  "find (\<lambda>k. map_of no_port_profile k = None)
     [''host'', ''port'', ''user'', ''password'', ''database''] = Some ''port''"
  by (simp add: no_port_profile_def)

lemma no_port_find_url:
  "find (\<lambda>k. map_of no_port_profile k = None)
     [''user'', ''password'', ''host'', ''port'', ''database''] = Some ''port''"
  by (simp add: no_port_profile_def)

lemma no_type_file: "config_file no_type_env = Json (Some [(''demo'', no_type_profile)])"
  by (simp add: no_type_env_def env_of_def)

lemma no_type_known:
  "map_of (databases_of (Some [(''demo'', no_type_profile)])) ''demo'' = Some no_type_profile"
  by (simp add: databases_of_def)

lemma no_type_missing: "map_of no_type_profile ''type'' = None"
  by (simp add: no_type_profile_def)

lemma demo_tables_empty_schema:
  "get_tables demo_env ''demo'' (Some []) =
     (Inr [7, 8],
      [LoadConfig, LoadConfig, Connect (Psycopg2 demo_args) None,
       ReadSql (''\<newline>            SELECT table_name, table_type'' @
                ''\<newline>            FROM information_schema.tables'' @
                ''\<newline>            WHERE table_schema = '' @ [CHR 0x27] @ ''public'' @ [CHR 0x27] @
                ''\<newline>            ORDER BY table_name'' @
                ''\<newline>        '')
         (Psycopg2 demo_args),
       Close (Psycopg2 demo_args)])"
  by (simp add: get_tables_def load_config_loaded [OF demo_file] demo_known demo_type
        get_dataframe_def demo_connection quoted_def)
     (simp add: demo_env_def env_of_def)

section \<open>The claims\<close>

text \<open>
  C1. The claim: for a profile whose type is neither \<open>postgresql\<close> nor \<open>mariadb\<close>,
  \<open>get_engine\<close> fails with \<open>UnsupportedType\<close>, as \<open>get_connection\<close> does. On the
  profile of type \<open>sqlite\<close> the code of \<open>get_engine\<close> returns an engine on the
  \<open>mysql+pymysql\<close> scheme instead, while \<open>get_connection\<close> rejects the same profile.
\<close>

theorem get_engine_unsupported_type:
  "get_engine sqlite_env ''demo'' =
     (Inr (Engine ''mysql+pymysql://u:p@localhost:5432/d''),
      [LoadConfig, CreateEngine ''mysql+pymysql://u:p@localhost:5432/d'' None])
   \<and> get_connection sqlite_env ''demo'' =
     (Inl (UnsupportedType
             (ko_unsupported_type @ ''sqlite'' @ ''\<newline>'' @ ko_supported_types @
              ''postgresql, mariadb'')),
      [LoadConfig])"
  by (simp add: get_engine_def get_connection_def demo_defs eval_defs)

text \<open>
  C2, as the code has it. For a name absent from the loaded configuration,
  \<open>get_connection\<close> fails with \<open>UnknownDatabase\<close> and its message contains every
  configured name; \<open>get_dataframe\<close> does the same when exactly one of \<open>query\<close> and
  \<open>table_name\<close> is set; \<open>get_engine\<close> and \<open>save_dataframe\<close> fail with
  \<open>UnknownDatabase\<close> and a message that contains the requested name. Nothing but the
  configuration is touched.
\<close>

theorem unknown_database_message:
  assumes "config_file w = Json cfg" and "map_of (databases_of cfg) db = None"
  shows "(\<exists>m. get_connection w db = (Inl (UnknownDatabase m), [LoadConfig])
            \<and> (\<forall>n \<in> set (map fst (databases_of cfg)). sublist n m))
       \<and> ((query = None) \<noteq> (table_name = None) \<longrightarrow>
            (\<exists>m. get_dataframe w db query table_name schema limit =
                    (Inl (UnknownDatabase m), [LoadConfig])
              \<and> (\<forall>n \<in> set (map fst (databases_of cfg)). sublist n m)))
       \<and> (\<exists>m. get_engine w db = (Inl (UnknownDatabase m), [LoadConfig]) \<and> sublist db m)
       \<and> (\<exists>m. save_dataframe w df db tbl sch if_exists index =
                 (Inl (UnknownDatabase m), [LoadConfig]) \<and> sublist db m)"
proof -
  let ?m = "quoted db @ ko_db_not_found @ ''\<newline>'' @ ko_available_db @
            join '', '' (map fst (databases_of cfg))"
  have c: "get_connection w db = (Inl (UnknownDatabase ?m), [LoadConfig])"
    using assms by (rule unknown_connection)
  have l: "\<forall>n \<in> set (map fst (databases_of cfg)). sublist n ?m"
  proof
    fix n assume "n \<in> set (map fst (databases_of cfg))"
    then have "sublist n ((quoted db @ ko_db_not_found @ ''\<newline>'' @ ko_available_db) @
                          join '', '' (map fst (databases_of cfg)))"
      by (rule listed_in_message)
    then show "sublist n ?m" by simp
  qed
  have e: "get_engine w db = (Inl (UnknownDatabase (quoted db @ ko_db_not_found)), [LoadConfig])"
    using assms by (rule unknown_engine)
  have s: "save_dataframe w df db tbl sch if_exists index =
             (Inl (UnknownDatabase (quoted db @ ko_db_not_found)), [LoadConfig])"
    using e by (rule save_dataframe_no_engine)
  have d: "(query = None) \<noteq> (table_name = None) \<Longrightarrow>
             get_dataframe w db query table_name schema limit =
               (Inl (UnknownDatabase ?m), [LoadConfig])"
    using c by (rule get_dataframe_no_conn [rotated])
  show ?thesis
    using c l e s d sublist_quoted [of db ko_db_not_found] by blast
qed

theorem unknown_database_message_witness:
  "config_file demo_env = Json (Some [(''demo'', demo_profile)])
   \<and> map_of (databases_of (Some [(''demo'', demo_profile)])) ''nope'' = None
   \<and> (\<exists>m. get_connection demo_env ''nope'' = (Inl (UnknownDatabase m), [LoadConfig])
          \<and> sublist ''demo'' m)
   \<and> (\<exists>m. get_dataframe demo_env ''nope'' None (Some ''t'') None None =
             (Inl (UnknownDatabase m), [LoadConfig]) \<and> sublist ''demo'' m)
   \<and> (\<exists>m. get_engine demo_env ''nope'' = (Inl (UnknownDatabase m), [LoadConfig])
          \<and> sublist ''nope'' m)
   \<and> (\<exists>m. save_dataframe demo_env [7, 8] ''nope'' ''t'' None ''append'' False =
             (Inl (UnknownDatabase m), [LoadConfig]) \<and> sublist ''nope'' m)"
  using unknown_database_message [OF demo_file demo_unknown, of None "Some ''t''" None None
      "[7, 8]" "''t''" None "''append''" False]
  by (simp add: demo_file demo_unknown databases_of_def)

text \<open>
  C2, as stated, fails on the configuration with the single profile \<open>demo\<close> and the
  unknown name \<open>nope\<close>: \<open>get_dataframe\<close> without \<open>query\<close> and \<open>table_name\<close> fails
  with \<open>InvalidArguments\<close>, and the message of \<open>get_engine\<close> and \<open>save_dataframe\<close>
  does not contain \<open>demo\<close>.
\<close>

theorem unknown_database_counterexample:
  "config_file demo_env = Json (Some [(''demo'', demo_profile)])
   \<and> map_of (databases_of (Some [(''demo'', demo_profile)])) ''nope'' = None
   \<and> get_dataframe demo_env ''nope'' None None None None =
       (Inl (InvalidArguments ko_need_one), [])
   \<and> get_engine demo_env ''nope'' =
       (Inl (UnknownDatabase (quoted ''nope'' @ ko_db_not_found)), [LoadConfig])
   \<and> save_dataframe demo_env [7, 8] ''nope'' ''t'' None ''append'' False =
       (Inl (UnknownDatabase (quoted ''nope'' @ ko_db_not_found)), [LoadConfig])
   \<and> \<not> sublist ''demo'' (quoted ''nope'' @ ko_db_not_found)"
proof -
  have e: "get_engine demo_env ''nope'' =
       (Inl (UnknownDatabase (quoted ''nope'' @ ko_db_not_found)), [LoadConfig])"
    using demo_file demo_unknown by (rule unknown_engine)
  have "\<not> sublist ''demo'' (quoted ''nope'' @ ko_db_not_found)"
    by (simp add: quoted_def ko_db_not_found_def sublist_Cons_right)
  then show ?thesis
    using e by (simp add: demo_file demo_unknown get_dataframe_def save_dataframe_no_engine)
qed



text \<open>
  C4, as the code has it. With \<open>table_name\<close> set and \<open>query\<close> \<open>None\<close>, the statement
  run on the connection is \<open>SELECT * FROM\<close>, then the table name, qualified by the
  schema when the schema is a non-empty string (the table name alone when the schema is
  \<open>None\<close> or empty), then \<open>LIMIT\<close> and the limit exactly when the limit is not
  \<open>None\<close>. For table \<open>t\<close> and limit 5 it is \<open>SELECT * FROM t LIMIT 5\<close>.
\<close>

theorem table_query_text:
  "get_connection w db = (Inr c, tr) \<Longrightarrow>
     snd (get_dataframe w db None (Some t) schema limit) =
       tr @ [ReadSql (''SELECT * FROM '' @
                      (case schema of None \<Rightarrow> t
                       | Some s \<Rightarrow> if s = [] then t else s @ ''.'' @ t) @
                      (case limit of None \<Rightarrow> [] | Some n \<Rightarrow> '' LIMIT '' @ show_int n)) c,
             Close c]
     \<and> snd (get_dataframe w db None (Some ''t'') None (Some 5)) =
       tr @ [ReadSql ''SELECT * FROM t LIMIT 5'' c, Close c]"
  by (simp add: get_dataframe_table_sql show_int_def show_nat.simps digit_char_def)

theorem table_query_text_witness:
  "get_connection demo_env ''demo'' =
     (Inr (Psycopg2 demo_args), [LoadConfig, Connect (Psycopg2 demo_args) None])
   \<and> snd (get_dataframe demo_env ''demo'' None (Some ''access_logs'') (Some ''public'') (Some 1000)) =
     [LoadConfig, Connect (Psycopg2 demo_args) None,
      ReadSql ''SELECT * FROM public.access_logs LIMIT 1000'' (Psycopg2 demo_args),
      Close (Psycopg2 demo_args)]
   \<and> snd (get_dataframe demo_env ''demo'' None (Some ''t'') None (Some 5)) =
     [LoadConfig, Connect (Psycopg2 demo_args) None,
      ReadSql ''SELECT * FROM t LIMIT 5'' (Psycopg2 demo_args),
      Close (Psycopg2 demo_args)]"
  using table_query_text [OF demo_connection, of "''access_logs''" "Some ''public''" "Some 1000"]
  by (simp add: demo_connection show_int_def show_nat.simps digit_char_def)

text \<open>
  C4, as stated, fails for the schema \<open>""\<close>: it is given, and the statement is
  \<open>SELECT * FROM t\<close>, not \<open>SELECT * FROM .t\<close>.
\<close>

theorem table_query_text_counterexample:
  "get_connection demo_env ''demo'' =
     (Inr (Psycopg2 demo_args), [LoadConfig, Connect (Psycopg2 demo_args) None])
   \<and> snd (get_dataframe demo_env ''demo'' None (Some ''t'') (Some []) None) =
       [LoadConfig, Connect (Psycopg2 demo_args) None,
        ReadSql ''SELECT * FROM t'' (Psycopg2 demo_args), Close (Psycopg2 demo_args)]
   \<and> ''SELECT * FROM t'' \<noteq> ''SELECT * FROM '' @ [] @ ''.'' @ ''t''"
  by (simp add: get_dataframe_table_sql [OF demo_connection] demo_connection)

text \<open>
  C5. No call of \<open>get_dataframe\<close> or \<open>save_dataframe\<close> leaves a handle open. When
  \<open>get_dataframe\<close> has its connection, closing it is the last thing it does, whether
  \<open>read_sql\<close> returned or raised; when \<open>save_dataframe\<close> has its engine, disposing of
  it is the last thing it does, whether \<open>to_sql\<close> returned or raised.
\<close>

theorem resources_released:
  "live (snd (get_dataframe w db query table_name schema limit)) = []
   \<and> live (snd (save_dataframe w df db tbl sch if_exists index)) = []
   \<and> ((query = None) \<noteq> (table_name = None) \<and> get_connection w db = (Inr c, tr) \<longrightarrow>
        live tr = [RConn c]
        \<and> last (snd (get_dataframe w db query table_name schema limit)) = Close c)
   \<and> (get_engine w db = (Inr e, tr') \<longrightarrow>
        live tr' = [REngine e]
        \<and> last (snd (save_dataframe w df db tbl sch if_exists index)) = Dispose e)"
proof (intro conjI impI)
  show "live (snd (get_dataframe w db query table_name schema limit)) = []"
    by (rule get_dataframe_live)
  show "live (snd (save_dataframe w df db tbl sch if_exists index)) = []"
    by (rule save_dataframe_live)
next
  assume a: "(query = None) \<noteq> (table_name = None) \<and> get_connection w db = (Inr c, tr)"
  then show "live tr = [RConn c]" using get_connection_live [of w db "Inr c" tr] by simp
  from a obtain sql where
    "get_dataframe w db query table_name schema limit =
       (case read_sql w sql c of
          Inr df \<Rightarrow> (Inr df, tr @ [ReadSql sql c, Close c])
        | Inl m \<Rightarrow> (Inl (LibraryError m), tr @ [ReadSql sql c, Close c]))"
    using get_dataframe_run by blast
  then show "last (snd (get_dataframe w db query table_name schema limit)) = Close c"
    by (auto split: sum.splits)
next
  assume a: "get_engine w db = (Inr e, tr')"
  then show "live tr' = [REngine e]" using get_engine_live [of w db "Inr e" tr'] by simp
  from a obtain call msg where
    "snd (save_dataframe w df db tbl sch if_exists index) =
       tr' @ [ToSql call, Print msg, Dispose e]"
    using save_dataframe_trace by blast
  then show "last (snd (save_dataframe w df db tbl sch if_exists index)) = Dispose e"
    by simp
qed

theorem resources_released_witness:
  "live (snd (get_dataframe demo_env ''demo'' (Some ''SELECT 1'') None None None)) = []
   \<and> fst (get_dataframe demo_env ''demo'' (Some ''SELECT 1'') None None None) = Inr [7, 8]
   \<and> last (snd (get_dataframe demo_env ''demo'' (Some ''SELECT 1'') None None None)) =
       Close (Psycopg2 demo_args)
   \<and> fst (get_dataframe failing_env ''demo'' (Some ''SELECT 1'') None None None) =
       Inl (LibraryError ''relation does not exist'')
   \<and> last (snd (get_dataframe failing_env ''demo'' (Some ''SELECT 1'') None None None)) =
       Close (Psycopg2 demo_args)
   \<and> fst (save_dataframe demo_env [7, 8] ''demo'' ''t'' None ''append'' False) = Inr ()
   \<and> last (snd (save_dataframe demo_env [7, 8] ''demo'' ''t'' None ''append'' False)) =
       Dispose (Engine ''postgresql://u:p@localhost:5432/d'')
   \<and> fst (save_dataframe failing_env [7, 8] ''demo'' ''t'' None ''append'' False) =
       Inl (LibraryError ''connection refused'')
   \<and> last (snd (save_dataframe failing_env [7, 8] ''demo'' ''t'' None ''append'' False)) =
       Dispose (Engine ''postgresql://u:p@localhost:5432/d'')"
  using
    resources_released [of demo_env "''demo''" "Some ''SELECT 1''" None None None
      "[7, 8]" "''t''" None "''append''" False "Psycopg2 demo_args"
      "[LoadConfig, Connect (Psycopg2 demo_args) None]"
      "Engine ''postgresql://u:p@localhost:5432/d''"
      "[LoadConfig, CreateEngine ''postgresql://u:p@localhost:5432/d'' None]"]
    resources_released [of failing_env "''demo''" "Some ''SELECT 1''" None None None
      "[7, 8]" "''t''" None "''append''" False "Psycopg2 demo_args"
      "[LoadConfig, Connect (Psycopg2 demo_args) None]"
      "Engine ''postgresql://u:p@localhost:5432/d''"
      "[LoadConfig, CreateEngine ''postgresql://u:p@localhost:5432/d'' None]"]
  by (simp add: demo_connection failing_connection demo_engine failing_engine
      demo_query failing_query demo_save failing_save)

text \<open>
  C6, as the code has it. Once \<open>save_dataframe\<close> has its engine, it calls \<open>to_sql\<close>
  with the table name, the schema, \<open>method='multi'\<close> and \<open>chunksize=1000\<close>. When the
  insert returns, it prints the number of rows and the destination and returns; when
  the insert raises, it prints the error and raises the same error; either way it then
  disposes of the engine. A failure of \<open>get_engine\<close> itself is raised as it is, with
  nothing printed.
\<close>

theorem save_dataframe_bulk_insert:
  assumes "call = \<lparr>sql_frame = df, sql_name = tbl, sql_con = e, sql_schema = sch,
                  sql_if_exists = if_exists, sql_index = index, sql_method = ''multi'',
                  sql_chunksize = 1000\<rparr>"
  shows "(get_engine w db = (Inr e, tr) \<and> to_sql w call = None \<longrightarrow>
            save_dataframe w df db tbl sch if_exists index =
              (Inr (),
               tr @ [ToSql call,
                     Print (ko_success @ group_thousands (length df) @ ko_rows_to @
                            quoted db @ ko_of @
                            quoted (case sch of None \<Rightarrow> tbl
                                    | Some s \<Rightarrow> if s = [] then tbl else s @ ''.'' @ tbl) @
                            ko_table_at @ if_exists @ ko_done),
                     Dispose e]))
       \<and> (get_engine w db = (Inr e, tr) \<and> to_sql w call = Some m \<longrightarrow>
            save_dataframe w df db tbl sch if_exists index =
              (Inl (LibraryError m), tr @ [ToSql call, Print (ko_failure @ m), Dispose e]))
       \<and> (get_engine w db = (Inl err, tr) \<longrightarrow>
            save_dataframe w df db tbl sch if_exists index = (Inl err, tr))"
  using assms by (simp add: save_dataframe_def Let_def)

theorem save_dataframe_bulk_insert_witness:
  "get_engine demo_env ''demo'' =
     (Inr (Engine ''postgresql://u:p@localhost:5432/d''),
      [LoadConfig, CreateEngine ''postgresql://u:p@localhost:5432/d'' None])
   \<and> to_sql demo_env
        \<lparr>sql_frame = replicate 1500 7, sql_name = ''processed_logs'',
         sql_con = Engine ''postgresql://u:p@localhost:5432/d'',
         sql_schema = Some ''analysis'', sql_if_exists = ''replace'',
         sql_index = False, sql_method = ''multi'', sql_chunksize = 1000\<rparr> = None
   \<and> save_dataframe demo_env (replicate 1500 7) ''demo'' ''processed_logs'' (Some ''analysis'')
       ''replace'' False =
       (Inr (),
        [LoadConfig, CreateEngine ''postgresql://u:p@localhost:5432/d'' None,
         ToSql \<lparr>sql_frame = replicate 1500 7, sql_name = ''processed_logs'',
                sql_con = Engine ''postgresql://u:p@localhost:5432/d'',
                sql_schema = Some ''analysis'', sql_if_exists = ''replace'',
                sql_index = False, sql_method = ''multi'', sql_chunksize = 1000\<rparr>,
         Print (ko_success @ ''1,500'' @ ko_rows_to @ quoted ''demo'' @ ko_of @
                quoted ''analysis.processed_logs'' @ ko_table_at @ ''replace'' @ ko_done),
         Dispose (Engine ''postgresql://u:p@localhost:5432/d'')])
   \<and> to_sql failing_env
        \<lparr>sql_frame = [7, 8], sql_name = ''t'',
         sql_con = Engine ''postgresql://u:p@localhost:5432/d'', sql_schema = None,
         sql_if_exists = ''append'', sql_index = False, sql_method = ''multi'',
         sql_chunksize = 1000\<rparr> = Some ''connection refused''
   \<and> save_dataframe failing_env [7, 8] ''demo'' ''t'' None ''append'' False =
       (Inl (LibraryError ''connection refused''),
        [LoadConfig, CreateEngine ''postgresql://u:p@localhost:5432/d'' None,
         ToSql \<lparr>sql_frame = [7, 8], sql_name = ''t'',
                sql_con = Engine ''postgresql://u:p@localhost:5432/d'', sql_schema = None,
                sql_if_exists = ''append'', sql_index = False, sql_method = ''multi'',
                sql_chunksize = 1000\<rparr>,
         Print (ko_failure @ ''connection refused''),
         Dispose (Engine ''postgresql://u:p@localhost:5432/d'')])"
proof -
  have a: "to_sql demo_env
        \<lparr>sql_frame = replicate 1500 7, sql_name = ''processed_logs'',
         sql_con = Engine ''postgresql://u:p@localhost:5432/d'',
         sql_schema = Some ''analysis'', sql_if_exists = ''replace'',
         sql_index = False, sql_method = ''multi'', sql_chunksize = 1000\<rparr> = None"
    by (simp add: demo_env_def env_of_def)
  have b: "to_sql failing_env
        \<lparr>sql_frame = [7, 8], sql_name = ''t'',
         sql_con = Engine ''postgresql://u:p@localhost:5432/d'', sql_schema = None,
         sql_if_exists = ''append'', sql_index = False, sql_method = ''multi'',
         sql_chunksize = 1000\<rparr> = Some ''connection refused''"
    by (simp add: failing_env_def)
  have g: "group_thousands (length (replicate 1500 (7::nat))) = ''1,500''"
    by (simp add: group_thousands.simps show_nat.simps digit_char_def pad3_def)
  show ?thesis
    using save_dataframe_bulk_insert [OF refl,
        where w = demo_env and db = "''demo''" and df = "replicate 1500 7"
          and tbl = "''processed_logs''" and sch = "Some ''analysis''"
          and if_exists = "''replace''" and index = False
          and e = "Engine ''postgresql://u:p@localhost:5432/d''"
          and tr = "[LoadConfig, CreateEngine ''postgresql://u:p@localhost:5432/d'' None]"]
      save_dataframe_bulk_insert [OF refl,
        where w = failing_env and db = "''demo''" and df = "[7, 8]"
          and tbl = "''t''" and sch = None and if_exists = "''append''" and index = False
          and e = "Engine ''postgresql://u:p@localhost:5432/d''"
          and tr = "[LoadConfig, CreateEngine ''postgresql://u:p@localhost:5432/d'' None]"
          and m = "''connection refused''"]
      a b g demo_engine failing_engine
    by simp
qed

text \<open>
  C6, as stated, fails where \<open>get_engine\<close> fails, which is before the \<open>try\<close>: for
  an unknown name, and for a profile without \<open>port\<close>, \<open>save_dataframe\<close> fails with
  nothing printed.
\<close>

theorem save_dataframe_unreported_counterexample:
  "save_dataframe demo_env [7, 8] ''nope'' ''t'' None ''append'' False =
     (Inl (UnknownDatabase (quoted ''nope'' @ ko_db_not_found)), [LoadConfig])
   \<and> save_dataframe no_port_env [7, 8] ''demo'' ''t'' None ''append'' False =
     (Inl (MissingField ''port''), [LoadConfig])"
proof -
  have "get_engine demo_env ''nope'' =
          (Inl (UnknownDatabase (quoted ''nope'' @ ko_db_not_found)), [LoadConfig])"
    using demo_file demo_unknown by (rule unknown_engine)
  moreover have "get_engine no_port_env ''demo'' = (Inl (MissingField ''port''), [LoadConfig])"
    by (simp add: get_engine_def demo_defs eval_defs)
  ultimately show ?thesis by (simp add: save_dataframe_no_engine)
qed

text \<open>
  C7, as the code has it. The type is the profile's \<open>type\<close> in lower case (the empty
  string when the profile has none). For \<open>postgresql\<close>, \<open>get_tables\<close> runs the query
  on \<open>information_schema.tables\<close> with \<open>table_schema\<close> equal to the schema when it is
  a non-empty string and to \<open>public\<close> when it is \<open>None\<close> or empty; for \<open>mariadb\<close>,
  the query on \<open>information_schema.TABLES\<close> with \<open>TABLE_SCHEMA\<close> equal to the schema
  when it is a non-empty string and to \<open>DATABASE()\<close> when it is \<open>None\<close> or empty;
  for any other type it fails with \<open>UnsupportedType\<close>.
\<close>

theorem get_tables_query:
  assumes "config_file w = Json cfg"
    and "map_of (databases_of cfg) db = Some p"
    and "db_type_of p = Inr ty"
  shows "(ty = ''postgresql'' \<longrightarrow>
            get_tables w db schema =
              (case get_dataframe w db
                      (Some (''\<newline>            SELECT table_name, table_type'' @
                             ''\<newline>            FROM information_schema.tables'' @
                             ''\<newline>            WHERE table_schema = '' @
                             quoted (case schema of None \<Rightarrow> ''public''
                                     | Some s \<Rightarrow> if s = [] then ''public'' else s) @
                             ''\<newline>            ORDER BY table_name'' @
                             ''\<newline>        ''))
                      None None None of
                 (r, tr) \<Rightarrow> (r, LoadConfig # tr)))
       \<and> (ty = ''mariadb'' \<longrightarrow>
            get_tables w db schema =
              (case get_dataframe w db
                      (Some (''\<newline>            SELECT TABLE_NAME as table_name, TABLE_TYPE as table_type'' @
                             ''\<newline>            FROM information_schema.TABLES'' @
                             ''\<newline>            WHERE 1=1 '' @
                             (case schema of None \<Rightarrow> ''AND TABLE_SCHEMA = DATABASE()''
                              | Some s \<Rightarrow>
                                  if s = [] then ''AND TABLE_SCHEMA = DATABASE()''
                                  else ''AND TABLE_SCHEMA = '' @ quoted s) @
                             ''\<newline>            ORDER BY TABLE_NAME'' @
                             ''\<newline>        ''))
                      None None None of
                 (r, tr) \<Rightarrow> (r, LoadConfig # tr)))
       \<and> (ty \<noteq> ''postgresql'' \<and> ty \<noteq> ''mariadb'' \<longrightarrow>
            get_tables w db schema =
              (Inl (UnsupportedType (ko_unsupported_type @ ty)), [LoadConfig]))"
  using assms
  by (simp add: get_tables_def load_config_loaded Let_def)

theorem get_tables_query_witness:
  "config_file demo_env = Json (Some [(''demo'', demo_profile)])
   \<and> map_of (databases_of (Some [(''demo'', demo_profile)])) ''demo'' = Some demo_profile
   \<and> db_type_of demo_profile = Inr ''postgresql''
   \<and> get_tables demo_env ''demo'' None =
     (Inr [7, 8],
      [LoadConfig, LoadConfig, Connect (Psycopg2 demo_args) None,
       ReadSql (''\<newline>            SELECT table_name, table_type'' @
                ''\<newline>            FROM information_schema.tables'' @
                ''\<newline>            WHERE table_schema = '' @ [CHR 0x27] @ ''public'' @ [CHR 0x27] @
                ''\<newline>            ORDER BY table_name'' @
                ''\<newline>        '')
         (Psycopg2 demo_args),
       Close (Psycopg2 demo_args)])
   \<and> db_type_of maria_profile = Inr ''mariadb''
   \<and> get_tables maria_env ''shop'' (Some ''sales'') =
     (Inr [7, 8],
      [LoadConfig, LoadConfig, Connect (Pymysql maria_args ''utf8mb4'') None,
       ReadSql (''\<newline>            SELECT TABLE_NAME as table_name, TABLE_TYPE as table_type'' @
                ''\<newline>            FROM information_schema.TABLES'' @
                ''\<newline>            WHERE 1=1 AND TABLE_SCHEMA = '' @ [CHR 0x27] @ ''sales'' @ [CHR 0x27] @
                ''\<newline>            ORDER BY TABLE_NAME'' @
                ''\<newline>        '')
         (Pymysql maria_args ''utf8mb4''),
       Close (Pymysql maria_args ''utf8mb4'')])
   \<and> get_tables maria_env ''shop'' None =
     (Inr [7, 8],
      [LoadConfig, LoadConfig, Connect (Pymysql maria_args ''utf8mb4'') None,
       ReadSql (''\<newline>            SELECT TABLE_NAME as table_name, TABLE_TYPE as table_type'' @
                ''\<newline>            FROM information_schema.TABLES'' @
                ''\<newline>            WHERE 1=1 AND TABLE_SCHEMA = DATABASE()'' @
                ''\<newline>            ORDER BY TABLE_NAME'' @
                ''\<newline>        '')
         (Pymysql maria_args ''utf8mb4''),
       Close (Pymysql maria_args ''utf8mb4'')])
   \<and> db_type_of sqlite_profile = Inr ''sqlite''
   \<and> get_tables sqlite_env ''demo'' None =
     (Inl (UnsupportedType (ko_unsupported_type @ ''sqlite'')), [LoadConfig])"
  using get_tables_query [OF demo_file demo_known demo_type, of None]
    get_tables_query [OF maria_file maria_known maria_type, of "Some ''sales''"]
    get_tables_query [OF maria_file maria_known maria_type, of None]
    get_tables_query [OF sqlite_file sqlite_known sqlite_type, of None]
  by (simp add: demo_file demo_known demo_type maria_type sqlite_type
        demo_tables maria_tables maria_tables_default)

text \<open>
  C7, as stated, fails for the schema \<open>""\<close>, which is not \<open>None\<close> and is filtered
  as \<open>public\<close>, and for the type \<open>MariaDB\<close>, which is not the string \<open>mariadb\<close>
  and is served as MariaDB.
\<close>

theorem get_tables_query_counterexample:
  "get_tables demo_env ''demo'' (Some []) =
     (Inr [7, 8],
      [LoadConfig, LoadConfig, Connect (Psycopg2 demo_args) None,
       ReadSql (''\<newline>            SELECT table_name, table_type'' @
                ''\<newline>            FROM information_schema.tables'' @
                ''\<newline>            WHERE table_schema = '' @ [CHR 0x27] @ ''public'' @ [CHR 0x27] @
                ''\<newline>            ORDER BY table_name'' @
                ''\<newline>        '')
         (Psycopg2 demo_args),
       Close (Psycopg2 demo_args)])
   \<and> [CHR 0x27] @ ''public'' @ [CHR 0x27] \<noteq> [CHR 0x27] @ [] @ [CHR 0x27]
   \<and> map_of maria_profile ''type'' = Some (JStr ''MariaDB'')
   \<and> get_tables maria_env ''shop'' None =
     (Inr [7, 8],
      [LoadConfig, LoadConfig, Connect (Pymysql maria_args ''utf8mb4'') None,
       ReadSql (''\<newline>            SELECT TABLE_NAME as table_name, TABLE_TYPE as table_type'' @
                ''\<newline>            FROM information_schema.TABLES'' @
                ''\<newline>            WHERE 1=1 AND TABLE_SCHEMA = DATABASE()'' @
                ''\<newline>            ORDER BY TABLE_NAME'' @
                ''\<newline>        '')
         (Pymysql maria_args ''utf8mb4''),
       Close (Pymysql maria_args ''utf8mb4'')])"
  by (simp add: demo_tables_empty_schema maria_tables_default) (simp add: maria_profile_def)

text \<open>
  C8, as the code has it. For a known name \<open>get_connection\<close> dispatches once on the
  profile's \<open>type\<close> in lower case (the empty string when the profile has none):
  \<open>postgresql\<close> makes one call of \<open>psycopg2.connect\<close>, \<open>mariadb\<close> one call of
  \<open>pymysql.connect\<close> with \<open>charset='utf8mb4'\<close>, any other type fails with
  \<open>UnsupportedType\<close>; when the client library of the type cannot be imported, it fails
  with \<open>DriverUnavailable\<close> and the \<open>pip install\<close> line.
\<close>

theorem get_connection_dispatch:
  assumes "config_file w = Json cfg"
    and "map_of (databases_of cfg) db = Some p"
    and "db_type_of p = Inr ty"
  shows "(ty = ''postgresql'' \<and> importable w ''psycopg2'' \<and> conn_kwargs p = Inr a \<longrightarrow>
            get_connection w db =
              (case driver_connect w (Psycopg2 a) of
                 None \<Rightarrow> (Inr (Psycopg2 a), [LoadConfig, Connect (Psycopg2 a) None])
               | Some m \<Rightarrow> (Inl (LibraryError m), [LoadConfig, Connect (Psycopg2 a) (Some m)])))
       \<and> (ty = ''postgresql'' \<and> \<not> importable w ''psycopg2'' \<longrightarrow>
            get_connection w db =
              (Inl (DriverUnavailable
                      (''psycopg2'' @ ko_ga_not_installed @ ''\<newline>'' @ ko_install @
                       ''pip install psycopg2-binary'')),
               [LoadConfig]))
       \<and> (ty = ''mariadb'' \<and> importable w ''pymysql'' \<and> conn_kwargs p = Inr a \<longrightarrow>
            get_connection w db =
              (case driver_connect w (Pymysql a ''utf8mb4'') of
                 None \<Rightarrow>
                   (Inr (Pymysql a ''utf8mb4''),
                    [LoadConfig, Connect (Pymysql a ''utf8mb4'') None])
               | Some m \<Rightarrow>
                   (Inl (LibraryError m),
                    [LoadConfig, Connect (Pymysql a ''utf8mb4'') (Some m)])))
       \<and> (ty = ''mariadb'' \<and> \<not> importable w ''pymysql'' \<longrightarrow>
            get_connection w db =
              (Inl (DriverUnavailable
                      (''pymysql'' @ ko_i_not_installed @ ''\<newline>'' @ ko_install @
                       ''pip install pymysql'')),
               [LoadConfig]))
       \<and> (ty \<noteq> ''postgresql'' \<and> ty \<noteq> ''mariadb'' \<longrightarrow>
            get_connection w db =
              (Inl (UnsupportedType
                      (ko_unsupported_type @ ty @ ''\<newline>'' @ ko_supported_types @
                       ''postgresql, mariadb'')),
               [LoadConfig]))"
  using assms
  by (auto simp: get_connection_def load_config_loaded Let_def call_connect_def
      split: option.splits)

theorem get_connection_dispatch_witness:
  "config_file maria_env = Json (Some [(''demo'', demo_profile), (''shop'', maria_profile)])
   \<and> map_of (databases_of (Some [(''demo'', demo_profile), (''shop'', maria_profile)])) ''shop'' =
       Some maria_profile
   \<and> db_type_of maria_profile = Inr ''mariadb''
   \<and> importable maria_env ''pymysql''
   \<and> conn_kwargs maria_profile = Inr maria_args
   \<and> get_connection maria_env ''shop'' =
       (Inr (Pymysql maria_args ''utf8mb4''),
        [LoadConfig, Connect (Pymysql maria_args ''utf8mb4'') None])
   \<and> get_connection demo_env ''demo'' =
       (Inr (Psycopg2 demo_args), [LoadConfig, Connect (Psycopg2 demo_args) None])
   \<and> \<not> importable no_driver_env ''psycopg2''
   \<and> get_connection no_driver_env ''demo'' =
       (Inl (DriverUnavailable
               (''psycopg2'' @ ko_ga_not_installed @ ''\<newline>'' @ ko_install @
                ''pip install psycopg2-binary'')),
        [LoadConfig])
   \<and> get_connection sqlite_env ''demo'' =
       (Inl (UnsupportedType
               (ko_unsupported_type @ ''sqlite'' @ ''\<newline>'' @ ko_supported_types @
                ''postgresql, mariadb'')),
        [LoadConfig])"
  using get_connection_dispatch [OF maria_file maria_known maria_type, of maria_args]
    get_connection_dispatch [OF demo_file demo_known demo_type, of demo_args]
    get_connection_dispatch [OF no_driver_file demo_known demo_type, of demo_args]
    get_connection_dispatch [OF sqlite_file sqlite_known sqlite_type, of demo_args]
  by (simp add: maria_file maria_known maria_type maria_kwargs demo_kwargs)
     (simp add: maria_env_def demo_env_def env_of_def no_driver_env_def)

text \<open>
  C8, as stated, fails for the declared type \<open>MariaDB\<close>: it is neither of the two
  strings, and \<open>get_connection\<close> opens a MariaDB connection.
\<close>

theorem get_connection_dispatch_counterexample:
  "map_of (databases_of (Some [(''demo'', demo_profile), (''shop'', maria_profile)])) ''shop'' =
     Some maria_profile
   \<and> map_of maria_profile ''type'' = Some (JStr ''MariaDB'')
   \<and> ''MariaDB'' \<noteq> ''postgresql'' \<and> ''MariaDB'' \<noteq> ''mariadb''
   \<and> get_connection maria_env ''shop'' =
       (Inr (Pymysql maria_args ''utf8mb4''),
        [LoadConfig, Connect (Pymysql maria_args ''utf8mb4'') None])"
  by (simp add: maria_known maria_connection) (simp add: maria_profile_def)

text \<open>
  C9, as the code has it. Loading returns the file's content unchecked. A profile
  without one of \<open>host\<close>, \<open>port\<close>, \<open>user\<close>, \<open>password\<close>, \<open>database\<close> is found
  out when \<open>get_connection\<close> (type \<open>postgresql\<close> or \<open>mariadb\<close>, client library
  importable) or \<open>get_engine\<close> reads the member: the call fails with \<open>MissingField\<close>
  naming the first missing member in the order it reads them, before any connection or
  engine is made. A profile without \<open>type\<close> never gives \<open>MissingField\<close>: its type is
  read as the empty string, and \<open>get_connection\<close> and \<open>get_tables\<close> fail with
  \<open>UnsupportedType\<close>.
\<close>

theorem missing_field_detection:
  assumes "config_file w = Json cfg"
    and "map_of (databases_of cfg) db = Some p"
  shows "load_config w = Inr cfg
       \<and> ((db_type_of p = Inr ''postgresql'' \<and> importable w ''psycopg2''
            \<or> db_type_of p = Inr ''mariadb'' \<and> importable w ''pymysql'')
           \<and> find (\<lambda>k. map_of p k = None)
                 [''host'', ''port'', ''user'', ''password'', ''database''] = Some f \<longrightarrow>
             get_connection w db = (Inl (MissingField f), [LoadConfig]))
       \<and> (db_type_of p = Inr ty
           \<and> find (\<lambda>k. map_of p k = None)
                 [''user'', ''password'', ''host'', ''port'', ''database''] = Some f \<longrightarrow>
             get_engine w db = (Inl (MissingField f), [LoadConfig]))
       \<and> (map_of p ''type'' = None \<longrightarrow>
             get_connection w db =
               (Inl (UnsupportedType
                       (ko_unsupported_type @ ''\<newline>'' @ ko_supported_types @
                        ''postgresql, mariadb'')),
                [LoadConfig])
           \<and> get_tables w db schema =
               (Inl (UnsupportedType ko_unsupported_type), [LoadConfig]))"
proof (intro conjI impI)
  show "load_config w = Inr cfg" using assms(1) by (rule load_config_loaded)
next
  assume a: "(db_type_of p = Inr ''postgresql'' \<and> importable w ''psycopg2''
            \<or> db_type_of p = Inr ''mariadb'' \<and> importable w ''pymysql'')
           \<and> find (\<lambda>k. map_of p k = None)
                 [''host'', ''port'', ''user'', ''password'', ''database''] = Some f"
  then have "conn_kwargs p = Inl (MissingField f)" by (simp add: find_missing_conn_kwargs)
  with a assms show "get_connection w db = (Inl (MissingField f), [LoadConfig])"
    by (auto simp: get_connection_def load_config_loaded Let_def)
next
  assume a: "db_type_of p = Inr ty
           \<and> find (\<lambda>k. map_of p k = None)
                 [''user'', ''password'', ''host'', ''port'', ''database''] = Some f"
  then have "engine_url driver p = Inl (MissingField f)" for driver
    by (simp add: find_missing_engine_url)
  with a assms show "get_engine w db = (Inl (MissingField f), [LoadConfig])"
    by (simp add: get_engine_def load_config_loaded Let_def)
next
  assume a: "map_of p ''type'' = None"
  then have t: "db_type_of p = Inr []" by (simp add: db_type_of_def lower_def)
  with assms show "get_connection w db =
               (Inl (UnsupportedType
                       (ko_unsupported_type @ ''\<newline>'' @ ko_supported_types @
                        ''postgresql, mariadb'')),
                [LoadConfig])"
    by (simp add: get_connection_def load_config_loaded Let_def)
  from t assms show "get_tables w db schema =
               (Inl (UnsupportedType ko_unsupported_type), [LoadConfig])"
    by (simp add: get_tables_def load_config_loaded Let_def)
qed

theorem missing_field_detection_witness:
  "config_file no_port_env = Json (Some [(''demo'', no_port_profile)])
   \<and> map_of (databases_of (Some [(''demo'', no_port_profile)])) ''demo'' = Some no_port_profile
   \<and> load_config no_port_env = Inr (Some [(''demo'', no_port_profile)])
   \<and> db_type_of no_port_profile = Inr ''postgresql''
   \<and> importable no_port_env ''psycopg2''
   \<and> get_connection no_port_env ''demo'' = (Inl (MissingField ''port''), [LoadConfig])
   \<and> get_engine no_port_env ''demo'' = (Inl (MissingField ''port''), [LoadConfig])"
proof -
  have i: "importable no_port_env ''psycopg2''"
    by (simp add: no_port_env_def env_of_def)
  note t = missing_field_detection [OF no_port_file no_port_known,
      where f = "''port''" and ty = "''postgresql''" and schema = None]
  have "load_config no_port_env = Inr (Some [(''demo'', no_port_profile)])"
    using t by blast
  moreover have "get_connection no_port_env ''demo'' = (Inl (MissingField ''port''), [LoadConfig])"
    using t i no_port_type no_port_find_conn by blast
  moreover have "get_engine no_port_env ''demo'' = (Inl (MissingField ''port''), [LoadConfig])"
    using t no_port_type no_port_find_url by blast
  ultimately show ?thesis
    using i no_port_file no_port_known no_port_type by blast
qed

text \<open>
  C9, as stated, fails for the member \<open>type\<close>: on a profile without it
  \<open>get_connection\<close> fails with \<open>UnsupportedType\<close>, not with \<open>MissingField\<close>.
\<close>

theorem missing_type_counterexample:
  "config_file no_type_env = Json (Some [(''demo'', no_type_profile)])
   \<and> map_of (databases_of (Some [(''demo'', no_type_profile)])) ''demo'' = Some no_type_profile
   \<and> map_of no_type_profile ''type'' = None
   \<and> get_connection no_type_env ''demo'' =
       (Inl (UnsupportedType
               (ko_unsupported_type @ ''\<newline>'' @ ko_supported_types @
                ''postgresql, mariadb'')),
        [LoadConfig])
   \<and> get_connection no_type_env ''demo'' \<noteq> (Inl (MissingField ''type''), [LoadConfig])"
proof -
  have "get_connection no_type_env ''demo'' =
       (Inl (UnsupportedType
               (ko_unsupported_type @ ''\<newline>'' @ ko_supported_types @
                ''postgresql, mariadb'')),
        [LoadConfig])"
    by (simp add: get_connection_def load_config_loaded [OF no_type_file] no_type_known
        db_type_of_def no_type_missing lower_def)
  then show ?thesis by (simp add: no_type_file no_type_known no_type_missing)
qed

text \<open>
  C10. With neither or both of \<open>query\<close> and \<open>table_name\<close>, \<open>get_dataframe\<close> fails with
  \<open>InvalidArguments\<close> and an empty trace: the configuration file has not been read and
  nothing has been looked up. This holds in every environment and for every
  \<open>db_name\<close>.
\<close>

theorem invalid_arguments_before_lookup:
  "get_dataframe w db_name None None schema limit = (Inl (InvalidArguments ko_need_one), [])
   \<and> get_dataframe w db_name (Some q) (Some t) schema limit =
       (Inl (InvalidArguments ko_not_both), [])"
  by (simp add: get_dataframe_def)

theorem invalid_arguments_before_lookup_witness:
  "get_dataframe absent_env ''nope'' None None None None =
     (Inl (InvalidArguments ko_need_one), [])
   \<and> get_dataframe absent_env ''nope'' (Some ''SELECT 1'') (Some ''t'') None None =
     (Inl (InvalidArguments ko_not_both), [])
   \<and> get_dataframe absent_env ''nope'' (Some ''SELECT 1'') None None None =
     (Inl (ConfigNotFound
             (ko_config_not_found @ ''/app/db_config.json'' @ ''\<newline>'' @
              ''db_config.json'' @ ko_create_config)),
      [LoadConfig])"
  using invalid_arguments_before_lookup [of absent_env "''nope''" None None "''SELECT 1''" "''t''"]
  by (simp add: get_dataframe_def get_connection_def load_config_def demo_defs)

end
